theory Spec2Isabelle
  imports Complex_Main
begin

section \<open>SafeStride: behavioural anomaly scoring and baseline adaptation\<close>

text \<open>
  A shallow embedding of the backend services of SafeStride:
  \<^item> \<^verbatim>\<open>backend/src/types/index.ts\<close> (the data model),
  \<^item> \<^verbatim>\<open>backend/src/services/behaviorAnalysis.ts\<close> (the scalar-baseline scorer),
  \<^item> \<^verbatim>\<open>backend/src/services/mlService.ts\<close> (the rolling-history z-score scorer),
  \<^item> the user service (sessions, flag logs, profile update),
  \<^item> \<^verbatim>\<open>backend/src/routes/behavior.ts\<close> (the \<^verbatim>\<open>POST /analyze\<close> handler).

  Modelling conventions.
  A TypeScript \<^verbatim>\<open>number\<close> is a real number: IEEE rounding, NaN and the infinities are
  outside the model, so every statement below is about exact arithmetic.
  A \<^verbatim>\<open>Date\<close> is the number of milliseconds since the epoch, a natural number, and
  every \<^verbatim>\<open>new Date()\<close> or \<^verbatim>\<open>Date.now()\<close> of the source reads the parameter \<open>now\<close>.
  The singletons' mutable fields are explicit state, passed in and returned.
  Records whose field names coincide in the source (\<^verbatim>\<open>id\<close>, \<^verbatim>\<open>userId\<close>,
  \<^verbatim>\<open>sessionId\<close>, the baselines of the two profile types) carry a prefix here.
\<close>

subsection \<open>Data model (types/index.ts)\<close>

record BehaviorMetrics =
  avgTypingInterval :: real
  mouseMovementCount :: real
  scrollEventCount :: real
  sessionDuration :: real

record BehaviorProfile =
  userId :: string
  baselineTypingInterval :: real
  baselineMouseActivity :: real
  baselineScrollPattern :: real
  anomalyThreshold :: real
  lastUpdated :: nat

datatype recommendation = Pass | Reauthenticate | Lock

record AnomalyAnalysis =
  score :: real
  confidence :: real
  factors :: "string list"
  recommendation :: recommendation

record User =
  user_id :: string
  username :: string
  email :: string
  behaviorProfile :: BehaviorProfile
  createdAt :: nat
  lastLogin :: nat

record Session =
  session_id :: string
  session_userId :: string
  startTime :: nat
  lastActivity :: nat
  isActive :: bool
  anomalyScore :: real

datatype flag_type = Typing | Mouse | Scroll | SessionFlag

datatype severity = Low | Medium | High

record FlagLog =
  flag_id :: string
  flag_sessionId :: string
  timestamp :: nat
  flag_type :: flag_type
  flag_severity :: severity
  description :: string
  action :: string
  resolved :: bool

subsection \<open>Number formatting: \<^verbatim>\<open>Number.prototype.toFixed(1)\<close> and \<^verbatim>\<open>toString\<close>\<close>

text \<open>
  \<^verbatim>\<open>toFixed(1)\<close> picks the integer \<open>n\<close> with \<open>n / 10\<close> closest to the magnitude of the
  number, the larger one on a tie, and prints it with one digit after the point, after a
  minus sign when the number is negative (for magnitudes below \<open>10 ^ 21\<close>, which the
  scores, at most 100, are).
\<close>

fun showNat :: "nat \<Rightarrow> string" where
  "showNat n =
     (if n < 10 then [''0123456789'' ! n]
      else showNat (n div 10) @ [''0123456789'' ! (n mod 10)])"

declare showNat.simps [simp del]

definition toFixed1 :: "real \<Rightarrow> string" where
  "toFixed1 x =
     (let n = nat \<lfloor>\<bar>x\<bar> * 10 + 1 / 2\<rfloor>
      in (if x < 0 then ''-'' else '''') @ showNat (n div 10) @ ''.'' @ showNat (n mod 10))"

text \<open>\<^verbatim>\<open>Array.prototype.join(', ')\<close>\<close>

fun join_comma :: "string list \<Rightarrow> string" where
  "join_comma [] = []"
| "join_comma [s] = s"
| "join_comma (s # t # ss) = s @ '', '' @ join_comma (t # ss)"

subsection \<open>The scalar-baseline scorer (services/behaviorAnalysis.ts)\<close>

text \<open>The three per-signal functions return an object with the single field \<^verbatim>\<open>score\<close>;
  the model returns that number.\<close>

definition analyzeTypingBehavior :: "real \<Rightarrow> real \<Rightarrow> real" where
  "analyzeTypingBehavior currentInterval baselineInterval =
     (if baselineInterval = 0 then 0
      else let deviation = \<bar>currentInterval - baselineInterval\<bar> / baselineInterval;
               score = min 100 (deviation * 100)
           in score)"

definition analyzeMouseBehavior :: "real \<Rightarrow> real \<Rightarrow> real" where
  "analyzeMouseBehavior currentActivity baselineActivity =
     (if baselineActivity = 0 then 0
      else let deviation = \<bar>currentActivity - baselineActivity\<bar> / baselineActivity;
               score = min 100 (deviation * 100)
           in score)"

definition analyzeScrollBehavior :: "real \<Rightarrow> real \<Rightarrow> real" where
  "analyzeScrollBehavior currentScrolls baselineScrolls =
     (if baselineScrolls = 0 then 0
      else let deviation = \<bar>currentScrolls - baselineScrolls\<bar> / baselineScrolls;
               score = min 100 (deviation * 100)
           in score)"

definition analyzeSessionBehavior :: "real \<Rightarrow> real" where
  "analyzeSessionBehavior duration =
     (let suspiciousThreshold = 5000
      in if duration < suspiciousThreshold then 30 else 0)"

text \<open>
  \<^verbatim>\<open>analyzeBehavior\<close> assigns to three mutable locals, \<^verbatim>\<open>factors\<close>, \<^verbatim>\<open>totalScore\<close>
  and \<^verbatim>\<open>confidence\<close>; each assignment is a rebinding of the same name here.
\<close>

definition analyzeBehavior :: "BehaviorMetrics \<Rightarrow> BehaviorProfile \<Rightarrow> AnomalyAnalysis" where
  "analyzeBehavior currentMetrics userProfile =
     (let factors = [];
          totalScore = 0;
          confidence = 0.8;
          typingDeviation = analyzeTypingBehavior (avgTypingInterval currentMetrics)
                              (baselineTypingInterval userProfile);
          factors = (if typingDeviation > 0
                     then factors @ [''Typing speed deviation: '' @ toFixed1 typingDeviation @ ''%'']
                     else factors);
          totalScore = (if typingDeviation > 0 then totalScore + typingDeviation * 0.4
                        else totalScore);
          mouseDeviation = analyzeMouseBehavior (mouseMovementCount currentMetrics)
                              (baselineMouseActivity userProfile);
          factors = (if mouseDeviation > 0
                     then factors @ [''Mouse activity deviation: '' @ toFixed1 mouseDeviation @ ''%'']
                     else factors);
          totalScore = (if mouseDeviation > 0 then totalScore + mouseDeviation * 0.3
                        else totalScore);
          scrollDeviation = analyzeScrollBehavior (scrollEventCount currentMetrics)
                              (baselineScrollPattern userProfile);
          factors = (if scrollDeviation > 0
                     then factors @ [''Scroll pattern deviation: '' @ toFixed1 scrollDeviation @ ''%'']
                     else factors);
          totalScore = (if scrollDeviation > 0 then totalScore + scrollDeviation * 0.2
                        else totalScore);
          sessionDeviation = analyzeSessionBehavior (sessionDuration currentMetrics);
          factors = (if sessionDeviation > 0
                     then factors @ [''Session duration anomaly: '' @ toFixed1 sessionDeviation @ ''%'']
                     else factors);
          totalScore = (if sessionDeviation > 0 then totalScore + sessionDeviation * 0.1
                        else totalScore);
          normalizedScore = min 100 (max 0 totalScore);
          recommendation = (if normalizedScore < 30 then Pass
                            else if normalizedScore < 70 then Reauthenticate
                            else Lock);
          confidence = (if avgTypingInterval currentMetrics = 0 then confidence * 0.7
                        else confidence);
          confidence = (if mouseMovementCount currentMetrics = 0 then confidence * 0.8
                        else confidence)
      in \<lparr> score = normalizedScore,
           confidence = max 0.5 confidence,
           factors = factors,
           recommendation = recommendation \<rparr>)"

definition updateBaseline :: "real \<Rightarrow> real \<Rightarrow> real \<Rightarrow> real" where
  "updateBaseline currentBaseline newValue learningRate =
     currentBaseline * (1 - learningRate) + newValue * learningRate"

text \<open>The object spread \<^verbatim>\<open>{...currentProfile, ...}\<close> copies every field and then overwrites
  the four that are listed.\<close>

definition updateProfile ::
  "nat \<Rightarrow> BehaviorProfile \<Rightarrow> BehaviorMetrics \<Rightarrow> real \<Rightarrow> BehaviorProfile" where
  "updateProfile now currentProfile newMetrics learningRate =
     currentProfile
       \<lparr> baselineTypingInterval :=
           updateBaseline (baselineTypingInterval currentProfile)
             (avgTypingInterval newMetrics) learningRate,
         baselineMouseActivity :=
           updateBaseline (baselineMouseActivity currentProfile)
             (mouseMovementCount newMetrics) learningRate,
         baselineScrollPattern :=
           updateBaseline (baselineScrollPattern currentProfile)
             (scrollEventCount newMetrics) learningRate,
         lastUpdated := now \<rparr>"

subsection \<open>The rolling-history z-score scorer (services/mlService.ts)\<close>

record MLUserProfile =
  ml_userId :: string
  typingIntervals :: "real list"
  mouseMovements :: "real list"
  scrollEvents :: "real list"
  ml_baselineTypingInterval :: real
  ml_baselineMouseActivity :: real
  ml_baselineScrollPattern :: real
  ml_lastUpdated :: nat

text \<open>\<^verbatim>\<open>xs.slice(-100)\<close>: the last 100 elements, all of them when there are fewer.\<close>

definition slice_last :: "nat \<Rightarrow> 'a list \<Rightarrow> 'a list" where
  "slice_last k xs = drop (length xs - k) xs"

definition getOrCreateProfile ::
  "nat \<Rightarrow> (string \<rightharpoonup> MLUserProfile) \<Rightarrow> string \<Rightarrow> MLUserProfile \<times> (string \<rightharpoonup> MLUserProfile)" where
  "getOrCreateProfile now userProfiles uid =
     (case userProfiles uid of
        Some profile \<Rightarrow> (profile, userProfiles)
      | None \<Rightarrow>
          (let newProfile = \<lparr> ml_userId = uid,
                               typingIntervals = [],
                               mouseMovements = [],
                               scrollEvents = [],
                               ml_baselineTypingInterval = 250,
                               ml_baselineMouseActivity = 50,
                               ml_baselineScrollPattern = 10,
                               ml_lastUpdated = now \<rparr>
           in (newProfile, userProfiles(uid \<mapsto> newProfile))))"

definition ml_updateBaseline :: "real \<Rightarrow> real \<Rightarrow> real \<Rightarrow> real" where
  "ml_updateBaseline current newValue alpha = current * (1 - alpha) + newValue * alpha"

definition ml_updateProfile :: "nat \<Rightarrow> MLUserProfile \<Rightarrow> BehaviorMetrics \<Rightarrow> MLUserProfile" where
  "ml_updateProfile now profile metrics =
     (let profile = profile\<lparr> typingIntervals :=
                      typingIntervals profile @ [avgTypingInterval metrics] \<rparr>;
          profile = profile\<lparr> mouseMovements :=
                      mouseMovements profile @ [mouseMovementCount metrics] \<rparr>;
          profile = profile\<lparr> scrollEvents :=
                      scrollEvents profile @ [scrollEventCount metrics] \<rparr>;
          profile = profile\<lparr> typingIntervals := slice_last 100 (typingIntervals profile) \<rparr>;
          profile = profile\<lparr> mouseMovements := slice_last 100 (mouseMovements profile) \<rparr>;
          profile = profile\<lparr> scrollEvents := slice_last 100 (scrollEvents profile) \<rparr>;
          alpha = 0.1;
          profile = profile\<lparr> ml_baselineTypingInterval :=
                      ml_updateBaseline (ml_baselineTypingInterval profile)
                        (avgTypingInterval metrics) alpha \<rparr>;
          profile = profile\<lparr> ml_baselineMouseActivity :=
                      ml_updateBaseline (ml_baselineMouseActivity profile)
                        (mouseMovementCount metrics) alpha \<rparr>;
          profile = profile\<lparr> ml_baselineScrollPattern :=
                      ml_updateBaseline (ml_baselineScrollPattern profile)
                        (scrollEventCount metrics) alpha \<rparr>
      in profile\<lparr> ml_lastUpdated := now \<rparr>)"

text \<open>The three anomaly functions share one body, applied to one history each:
  mean and population standard deviation by \<^verbatim>\<open>reduce\<close>, then the scaled z-score.\<close>

definition history_mean :: "real list \<Rightarrow> real" where
  "history_mean xs = foldl (\<lambda>a b. a + b) 0 xs / real (length xs)"

definition history_std :: "real list \<Rightarrow> real" where
  "history_std xs =
     (let mean = history_mean xs
      in sqrt (foldl (\<lambda>sum val. sum + (val - mean) ^ 2) 0 xs / real (length xs)))"

definition calculateTypingAnomaly :: "real \<Rightarrow> MLUserProfile \<Rightarrow> real" where
  "calculateTypingAnomaly currentInterval profile =
     (if length (typingIntervals profile) < 5 then 0
      else let mean = history_mean (typingIntervals profile);
               std = history_std (typingIntervals profile)
           in if std = 0 then 0
              else let zScore = \<bar>currentInterval - mean\<bar> / std
                   in min 100 (zScore * 20))"

definition calculateMouseAnomaly :: "real \<Rightarrow> MLUserProfile \<Rightarrow> real" where
  "calculateMouseAnomaly currentMovements profile =
     (if length (mouseMovements profile) < 5 then 0
      else let mean = history_mean (mouseMovements profile);
               std = history_std (mouseMovements profile)
           in if std = 0 then 0
              else let zScore = \<bar>currentMovements - mean\<bar> / std
                   in min 100 (zScore * 20))"

definition calculateScrollAnomaly :: "real \<Rightarrow> MLUserProfile \<Rightarrow> real" where
  "calculateScrollAnomaly currentScrolls profile =
     (if length (scrollEvents profile) < 5 then 0
      else let mean = history_mean (scrollEvents profile);
               std = history_std (scrollEvents profile)
           in if std = 0 then 0
              else let zScore = \<bar>currentScrolls - mean\<bar> / std
                   in min 100 (zScore * 20))"

definition calculateConfidence :: "MLUserProfile \<Rightarrow> real" where
  "calculateConfidence profile =
     (let dataPoints = min (length (typingIntervals profile))
                         (min (length (mouseMovements profile))
                              (length (scrollEvents profile)))
      in if dataPoints < 5 then 0.3
         else if dataPoints < 20 then 0.6
         else if dataPoints < 50 then 0.8
         else 0.95)"

text \<open>
  \<^verbatim>\<open>MLService.analyzeBehavior\<close>. The profile is an object held by the map, and
  \<^verbatim>\<open>updateProfile\<close> mutates it in place: the map of the returned state holds the updated
  profile, and the scoring that follows reads the same, updated object.
\<close>

definition ml_analyzeBehavior ::
  "nat \<Rightarrow> (string \<rightharpoonup> MLUserProfile) \<Rightarrow> string \<Rightarrow> BehaviorMetrics
     \<Rightarrow> AnomalyAnalysis \<times> (string \<rightharpoonup> MLUserProfile)" where
  "ml_analyzeBehavior now userProfiles uid behaviorMetrics =
     (let (profile, userProfiles) = getOrCreateProfile now userProfiles uid;
          profile = ml_updateProfile now profile behaviorMetrics;
          userProfiles = userProfiles(uid \<mapsto> profile);
          typingScore = calculateTypingAnomaly (avgTypingInterval behaviorMetrics) profile;
          mouseScore = calculateMouseAnomaly (mouseMovementCount behaviorMetrics) profile;
          scrollScore = calculateScrollAnomaly (scrollEventCount behaviorMetrics) profile;
          overallScore = typingScore * 0.4 + mouseScore * 0.3 + scrollScore * 0.3;
          recommendation = (if overallScore < 30 then Pass
                            else if overallScore < 70 then Reauthenticate
                            else Lock);
          confidence = calculateConfidence profile;
          factors = [];
          factors = (if typingScore > 30
                     then factors @ [''Typing anomaly: '' @ toFixed1 typingScore @ ''%'']
                     else factors);
          factors = (if mouseScore > 30
                     then factors @ [''Mouse activity anomaly: '' @ toFixed1 mouseScore @ ''%'']
                     else factors);
          factors = (if scrollScore > 30
                     then factors @ [''Scroll pattern anomaly: '' @ toFixed1 scrollScore @ ''%'']
                     else factors)
      in (\<lparr> score = min 100 (max 0 overallScore),
            confidence = confidence,
            factors = factors,
            recommendation = recommendation \<rparr>,
          userProfiles))"

subsection \<open>The user service: sessions, flag logs, profile update\<close>

text \<open>
  \<^verbatim>\<open>users\<close> is a JavaScript \<^verbatim>\<open>Map\<close> from user name to user, read in insertion order
  by \<^verbatim>\<open>Array.from(this.users.values())\<close>: an association list. \<^verbatim>\<open>sessions\<close> is only
  read and written by key: a map. \<^verbatim>\<open>flagLogs\<close> is an array.
\<close>

record UserService =
  users :: "(string \<times> User) list"
  sessions :: "string \<rightharpoonup> Session"
  flagLogs :: "FlagLog list"

definition getAllUsers :: "UserService \<Rightarrow> User list" where
  "getAllUsers us = map snd (users us)"

definition createSession :: "nat \<Rightarrow> UserService \<Rightarrow> string \<Rightarrow> Session \<times> UserService" where
  "createSession now us uid =
     (let session = \<lparr> session_id = ''session-'' @ showNat now,
                       session_userId = uid,
                       startTime = now,
                       lastActivity = now,
                       isActive = True,
                       anomalyScore = 0 \<rparr>
      in (session, us\<lparr> sessions := (sessions us)(session_id session \<mapsto> session) \<rparr>))"

definition getSession :: "UserService \<Rightarrow> string \<Rightarrow> Session option" where
  "getSession us sessionId = sessions us sessionId"

definition updateSessionActivity :: "nat \<Rightarrow> UserService \<Rightarrow> string \<Rightarrow> real \<Rightarrow> UserService" where
  "updateSessionActivity now us sessionId newScore =
     (case sessions us sessionId of
        Some session \<Rightarrow>
          us\<lparr> sessions := (sessions us)
                (sessionId \<mapsto> session\<lparr> lastActivity := now, anomalyScore := newScore \<rparr>) \<rparr>
      | None \<Rightarrow> us)"

definition endSession :: "UserService \<Rightarrow> string \<Rightarrow> UserService" where
  "endSession us sessionId =
     (case sessions us sessionId of
        Some session \<Rightarrow>
          us\<lparr> sessions := (sessions us)(sessionId \<mapsto> session\<lparr> isActive := False \<rparr>) \<rparr>
      | None \<Rightarrow> us)"

text \<open>The argument of \<^verbatim>\<open>addFlagLog\<close> has no \<^verbatim>\<open>id\<close>; the model passes a record whose
  \<open>flag_id\<close> is overwritten.\<close>

definition addFlagLog :: "nat \<Rightarrow> UserService \<Rightarrow> FlagLog \<Rightarrow> FlagLog \<times> UserService" where
  "addFlagLog now us flagLog =
     (let newFlagLog = flagLog\<lparr> flag_id := showNat now \<rparr>
      in (newFlagLog, us\<lparr> flagLogs := flagLogs us @ [newFlagLog] \<rparr>))"

text \<open>\<^verbatim>\<open>find\<close> returns the first user with the id, an object, and the assignment writes
  into that object: the first entry with the id is replaced in the list.\<close>

fun set_first_profile ::
  "string \<Rightarrow> BehaviorProfile \<Rightarrow> (string \<times> User) list \<Rightarrow> (string \<times> User) list" where
  "set_first_profile uid p [] = []"
| "set_first_profile uid p ((k, u) # rest) =
     (if user_id u = uid then (k, u\<lparr> behaviorProfile := p \<rparr>) # rest
      else (k, u) # set_first_profile uid p rest)"

definition updateBehaviorProfile ::
  "nat \<Rightarrow> UserService \<Rightarrow> string \<Rightarrow> BehaviorMetrics \<Rightarrow> real
     \<Rightarrow> BehaviorProfile option \<times> UserService" where
  "updateBehaviorProfile now us uid newMetrics learningRate =
     (case find (\<lambda>u. user_id u = uid) (getAllUsers us) of
        None \<Rightarrow> (None, us)
      | Some user \<Rightarrow>
          (let updatedProfile = updateProfile now (behaviorProfile user) newMetrics learningRate
           in (Some updatedProfile,
               us\<lparr> users := set_first_profile uid updatedProfile (users us) \<rparr>)))"

subsection \<open>The \<^verbatim>\<open>POST /analyze\<close> handler (routes/behavior.ts)\<close>

text \<open>
  The request body: each of the three fields may be absent. A string is falsy when it is
  absent or empty; an object is falsy only when it is absent. The response carries the
  analysis and \<^verbatim>\<open>user.behaviorProfile\<close>, read after \<^verbatim>\<open>updateBehaviorProfile\<close>: that
  function looks the user up by the same id, so when it finds one it has written the new
  profile into this very object, and otherwise the object still holds the old profile.
\<close>

record AnalyzeRequest =
  req_userId :: "string option"
  req_behaviorMetrics :: "BehaviorMetrics option"
  req_sessionId :: "string option"

datatype response =
  Status400
| Status404
| Success AnomalyAnalysis BehaviorProfile

definition truthy :: "string option \<Rightarrow> bool" where
  "truthy s = (case s of None \<Rightarrow> False | Some t \<Rightarrow> t \<noteq> [])"

definition post_analyze :: "nat \<Rightarrow> UserService \<Rightarrow> AnalyzeRequest \<Rightarrow> response \<times> UserService" where
  "post_analyze now us req =
     (if \<not> truthy (req_userId req) \<or> req_behaviorMetrics req = None then (Status400, us)
      else
        let uid = the (req_userId req);
            behaviorMetrics = the (req_behaviorMetrics req)
        in case find (\<lambda>u. user_id u = uid) (getAllUsers us) of
             None \<Rightarrow> (Status404, us)
           | Some user \<Rightarrow>
               (let analysis = analyzeBehavior behaviorMetrics (behaviorProfile user);
                    us = (if truthy (req_sessionId req)
                          then updateSessionActivity now us (the (req_sessionId req))
                                 (score analysis)
                          else us);
                    us = (if score analysis > 30
                          then (let severity = (if score analysis > 70 then High
                                                else if score analysis > 50 then Medium
                                                else Low);
                                    action = (if recommendation analysis = Lock
                                              then ''Session locked''
                                              else if recommendation analysis = Reauthenticate
                                              then ''Request re-authentication''
                                              else ''Monitor'')
                                in snd (addFlagLog now us
                                     \<lparr> flag_id = [],
                                       flag_sessionId = (if truthy (req_sessionId req)
                                                         then the (req_sessionId req)
                                                         else ''unknown''),
                                       timestamp = now,
                                       flag_type = SessionFlag,
                                       flag_severity = severity,
                                       description = ''Real-time anomaly: ''
                                         @ toFixed1 (score analysis) @ '' - ''
                                         @ join_comma (factors analysis),
                                       action = action,
                                       resolved = False \<rparr>))
                          else us);
                    (updatedProfile, us) =
                       updateBehaviorProfile now us (user_id user) behaviorMetrics 0.1
                in (Success analysis
                      (case updatedProfile of
                         Some profile \<Rightarrow> profile
                       | None \<Rightarrow> behaviorProfile user),
                    us)))"

subsection \<open>Notions used in the statements\<close>


text \<open>The profile that \<open>ml_analyzeBehavior\<close> scores against and stores: the user's profile
  (created when absent) after \<open>ml_updateProfile\<close> has taken the sample in.\<close>

definition ml_profile_after :: "nat \<Rightarrow> (string \<rightharpoonup> MLUserProfile) \<Rightarrow> string \<Rightarrow> BehaviorMetrics \<Rightarrow> MLUserProfile" where
  "ml_profile_after now userProfiles uid m =
     ml_updateProfile now (fst (getOrCreateProfile now userProfiles uid)) m"

text \<open>A raised flag, as the handler builds it from the time, the request and the analysis
  (with the id that \<open>addFlagLog\<close> gives it).\<close>

definition raised_flag :: "nat \<Rightarrow> AnalyzeRequest \<Rightarrow> AnomalyAnalysis \<Rightarrow> FlagLog" where
  "raised_flag now req analysis =
     \<lparr> flag_id = showNat now,
       flag_sessionId = (if truthy (req_sessionId req) then the (req_sessionId req)
                         else ''unknown''),
       timestamp = now,
       flag_type = SessionFlag,
       flag_severity = (if score analysis > 70 then High
                        else if score analysis > 50 then Medium else Low),
       description = ''Real-time anomaly: '' @ toFixed1 (score analysis) @ '' - ''
                       @ join_comma (factors analysis),
       action = (case recommendation analysis of
                   Lock \<Rightarrow> ''Session locked''
                 | Reauthenticate \<Rightarrow> ''Request re-authentication''
                 | Pass \<Rightarrow> ''Monitor''),
       resolved = False \<rparr>"

subsection \<open>Sample inputs\<close>

text \<open>The first mock user of the user service with one open session, and a sample whose
  typing interval is twice the baseline and whose scroll count is a quarter above it.\<close>

definition john_profile :: BehaviorProfile where
  "john_profile = \<lparr> userId = ''1'', baselineTypingInterval = 240, baselineMouseActivity = 45,
                     baselineScrollPattern = 8, anomalyThreshold = 30, lastUpdated = 1000 \<rparr>"

definition john :: User where
  "john = \<lparr> user_id = ''1'', username = ''john_doe'', email = ''john@example.com'',
             behaviorProfile = john_profile, createdAt = 0, lastLogin = 1000 \<rparr>"

definition demo_session :: Session where
  "demo_session = \<lparr> session_id = ''session-1'', session_userId = ''1'', startTime = 1000,
                     lastActivity = 1000, isActive = True, anomalyScore = 0 \<rparr>"

definition john_service :: UserService where
  "john_service = \<lparr> users = [(''john_doe'', john)],
                     sessions = [''session-1'' \<mapsto> demo_session], flagLogs = [] \<rparr>"

definition sample45 :: BehaviorMetrics where
  "sample45 = \<lparr> avgTypingInterval = 480, mouseMovementCount = 45, scrollEventCount = 10,
                 sessionDuration = 60000 \<rparr>"

definition request45 :: AnalyzeRequest where
  "request45 = \<lparr> req_userId = Some ''1'', req_behaviorMetrics = Some sample45,
                  req_sessionId = Some ''session-1'' \<rparr>"

text \<open>A sample with a session of one minute, a scalar profile with given baselines, the
  defaults of a new user, and a z-score profile whose three histories hold \<open>k\<close> samples
  of value 10.\<close>

definition sample_of :: "real \<Rightarrow> real \<Rightarrow> real \<Rightarrow> BehaviorMetrics" where
  "sample_of t mo sc = \<lparr> avgTypingInterval = t, mouseMovementCount = mo, scrollEventCount = sc,
                         sessionDuration = 60000 \<rparr>"

definition profile_of :: "real \<Rightarrow> real \<Rightarrow> real \<Rightarrow> BehaviorProfile" where
  "profile_of bt bm bs = \<lparr> userId = ''1'', baselineTypingInterval = bt,
                           baselineMouseActivity = bm, baselineScrollPattern = bs,
                           anomalyThreshold = 30, lastUpdated = 1000 \<rparr>"

definition history_profile :: "nat \<Rightarrow> MLUserProfile" where
  "history_profile k = \<lparr> ml_userId = ''u'', typingIntervals = replicate k 10,
                          mouseMovements = replicate k 10, scrollEvents = replicate k 10,
                          ml_baselineTypingInterval = 10, ml_baselineMouseActivity = 10,
                          ml_baselineScrollPattern = 10, ml_lastUpdated = 1000 \<rparr>"


section \<open>Properties\<close>

subsection \<open>Per-signal deviation of the scalar scorer\<close>

text \<open>
  Claim C2. For each of the three signals, the scalar scorer's deviation score of a current
  value \<open>c\<close> against a stored baseline \<open>b\<close> is \<open>min 100 (|c - b| / b * 100)\<close> when
  \<open>b > 0\<close>, and is 0 when \<open>b = 0\<close>: the zero baseline is answered by the guard, before
  the division.
\<close>

theorem scalar_deviation_formula:
  "(0 < b \<longrightarrow> analyzeTypingBehavior c b = min 100 (\<bar>c - b\<bar> / b * 100)
          \<and> analyzeMouseBehavior c b = min 100 (\<bar>c - b\<bar> / b * 100)
          \<and> analyzeScrollBehavior c b = min 100 (\<bar>c - b\<bar> / b * 100))
   \<and> analyzeTypingBehavior c 0 = 0
   \<and> analyzeMouseBehavior c 0 = 0
   \<and> analyzeScrollBehavior c 0 = 0"
  by (simp add: analyzeTypingBehavior_def analyzeMouseBehavior_def analyzeScrollBehavior_def)

theorem scalar_deviation_formula_witness:
  "(0::real) < 250 \<and> analyzeTypingBehavior 275 250 = 10
     \<and> analyzeMouseBehavior 275 250 = 10 \<and> analyzeScrollBehavior 275 250 = 10
     \<and> analyzeTypingBehavior 1000000 250 = 100
     \<and> analyzeTypingBehavior 275 0 = 0"
  using scalar_deviation_formula [of 250 275] scalar_deviation_formula [of 250 1000000]
    scalar_deviation_formula [of 0 275]
  by simp

subsection \<open>Frame of the scalar profile update\<close>

lemma updateProfile_frame:
  "userId (updateProfile now p m lr) = userId p"
  "anomalyThreshold (updateProfile now p m lr) = anomalyThreshold p"
  by (simp_all add: updateProfile_def)

text \<open>
  Claim C10. The scalar profile update changes only the three baseline fields and
  \<open>lastUpdated\<close>: the user id and the anomaly threshold of the result are those of the
  input, and they stay so through any sequence of adaptation steps (each step with its own
  time and sample, at the default learning rate).
\<close>

theorem updateProfile_preserves_threshold:
  "userId (updateProfile now p m lr) = userId p
   \<and> anomalyThreshold (updateProfile now p m lr) = anomalyThreshold p
   \<and> updateProfile now p m lr =
       p\<lparr> baselineTypingInterval := baselineTypingInterval (updateProfile now p m lr),
          baselineMouseActivity := baselineMouseActivity (updateProfile now p m lr),
          baselineScrollPattern := baselineScrollPattern (updateProfile now p m lr),
          lastUpdated := lastUpdated (updateProfile now p m lr) \<rparr>
   \<and> anomalyThreshold (foldl (\<lambda>q (t, s). updateProfile t q s 0.1) p steps) = anomalyThreshold p
   \<and> userId (foldl (\<lambda>q (t, s). updateProfile t q s 0.1) p steps) = userId p"
proof -
  have "anomalyThreshold (foldl (\<lambda>q (t, s). updateProfile t q s 0.1) p steps)
          = anomalyThreshold p
        \<and> userId (foldl (\<lambda>q (t, s). updateProfile t q s 0.1) p steps) = userId p"
    by (induction steps arbitrary: p) (auto simp: updateProfile_frame)
  then show ?thesis by (simp add: updateProfile_def)
qed

subsection \<open>The exponential moving average\<close>










subsection \<open>Session ledger\<close>

text \<open>
  Claim C9. For an unknown session id, \<open>endSession\<close> and \<open>updateSessionActivity\<close> leave
  the state unchanged. For a known session, \<open>endSession\<close> sets its active flag to false
  and a second \<open>endSession\<close> changes nothing; \<open>updateSessionActivity\<close> stores the time
  and the score, also on a session that has been ended (which stays ended). Neither
  touches any other session.
\<close>

theorem session_end_and_activity:
  "(sessions us sid = None \<longrightarrow>
       endSession us sid = us \<and> updateSessionActivity now us sid sc = us)
   \<and> (sessions us sid = Some s \<longrightarrow>
         sessions (endSession us sid) sid = Some (s\<lparr> isActive := False \<rparr>)
       \<and> sessions (updateSessionActivity now us sid sc) sid
            = Some (s\<lparr> lastActivity := now, anomalyScore := sc \<rparr>)
       \<and> sessions (updateSessionActivity now (endSession us sid) sid sc) sid
            = Some (s\<lparr> isActive := False, lastActivity := now, anomalyScore := sc \<rparr>))
   \<and> endSession (endSession us sid) sid = endSession us sid
   \<and> (k \<noteq> sid \<longrightarrow> sessions (endSession us sid) k = sessions us k
                  \<and> sessions (updateSessionActivity now us sid sc) k = sessions us k)"
  by (cases "sessions us sid") (simp_all add: endSession_def updateSessionActivity_def)

theorem session_end_and_activity_witness:
  "sessions john_service ''session-1'' = Some demo_session
   \<and> sessions john_service ''nope'' = None
   \<and> ''nope'' \<noteq> ''session-1''
   \<and> endSession john_service ''nope'' = john_service
   \<and> updateSessionActivity 2000 john_service ''nope'' 45 = john_service
   \<and> sessions (endSession john_service ''session-1'') ''session-1''
        = Some (demo_session\<lparr> isActive := False \<rparr>)
   \<and> sessions (updateSessionActivity 2000 (endSession john_service ''session-1'') ''session-1'' 45)
        ''session-1''
        = Some \<lparr> session_id = ''session-1'', session_userId = ''1'', startTime = 1000,
                 lastActivity = 2000, isActive = False, anomalyScore = 45 \<rparr>
   \<and> sessions (endSession john_service ''session-1'') ''nope'' = None"
  using session_end_and_activity [of john_service "''session-1''" 2000 45 demo_session "''nope''"]
    session_end_and_activity [of john_service "''nope''" 2000 45 demo_session "''session-1''"]
  by (simp add: john_service_def demo_session_def)

subsection \<open>The handler: flag raising\<close>

lemma flagLogs_updateSessionActivity:
  "flagLogs (updateSessionActivity now us sid sc) = flagLogs us"
  by (simp add: updateSessionActivity_def split: option.split)

lemma users_updateSessionActivity:
  "users (updateSessionActivity now us sid sc) = users us"
  by (simp add: updateSessionActivity_def split: option.split)

lemma users_addFlagLog: "users (snd (addFlagLog now us f)) = users us"
  by (simp add: addFlagLog_def Let_def)

lemma flagLogs_addFlagLog:
  "flagLogs (snd (addFlagLog now us f)) = flagLogs us @ [f\<lparr> flag_id := showNat now \<rparr>]"
  by (simp add: addFlagLog_def Let_def)

lemma updateBehaviorProfile_found:
  assumes "find (\<lambda>u. user_id u = uid) (map snd (users us)) = Some user"
  shows "fst (updateBehaviorProfile now us uid m lr)
           = Some (updateProfile now (behaviorProfile user) m lr)"
    and "flagLogs (snd (updateBehaviorProfile now us uid m lr)) = flagLogs us"
    and "sessions (snd (updateBehaviorProfile now us uid m lr)) = sessions us"
    and "users (snd (updateBehaviorProfile now us uid m lr))
           = set_first_profile uid (updateProfile now (behaviorProfile user) m lr) (users us)"
  using assms by (simp_all add: updateBehaviorProfile_def getAllUsers_def Let_def)

lemma find_user_id: "find (\<lambda>u. user_id u = uid) xs = Some user \<Longrightarrow> user_id user = uid"
  by (induction xs) (auto split: if_splits)

lemma post_analyze_400:
  "\<not> truthy (req_userId req) \<or> req_behaviorMetrics req = None
     \<Longrightarrow> post_analyze now us req = (Status400, us)"
  by (simp add: post_analyze_def)

lemma post_analyze_404:
  "truthy (req_userId req) \<Longrightarrow> req_behaviorMetrics req = Some m
     \<Longrightarrow> find (\<lambda>u. user_id u = the (req_userId req)) (map snd (users us)) = None
     \<Longrightarrow> post_analyze now us req = (Status404, us)"
  by (simp add: post_analyze_def getAllUsers_def)

lemma post_analyze_found:
  assumes t: "truthy (req_userId req)" and m: "req_behaviorMetrics req = Some m"
    and u: "find (\<lambda>u. user_id u = the (req_userId req)) (map snd (users us)) = Some user"
  shows "fst (post_analyze now us req)
           = Success (analyzeBehavior m (behaviorProfile user))
               (updateProfile now (behaviorProfile user) m 0.1)"
    and "flagLogs (snd (post_analyze now us req))
           = (if score (analyzeBehavior m (behaviorProfile user)) > 30
              then flagLogs us @ [raised_flag now req (analyzeBehavior m (behaviorProfile user))]
              else flagLogs us)"
    and "users (snd (post_analyze now us req))
           = set_first_profile (the (req_userId req))
               (updateProfile now (behaviorProfile user) m 0.1) (users us)"
proof -
  define analysis where "analysis = analyzeBehavior m (behaviorProfile user)"
  define us1 where "us1 = (if truthy (req_sessionId req)
      then updateSessionActivity now us (the (req_sessionId req)) (score analysis) else us)"
  define us2 where "us2 = (if score analysis > 30
      then snd (addFlagLog now us1 ((raised_flag now req analysis)\<lparr> flag_id := [] \<rparr>))
      else us1)"
  have id: "user_id user = the (req_userId req)" using find_user_id [OF u] .
  have flag: "(raised_flag now req analysis)\<lparr> flag_id := [] \<rparr> =
       \<lparr> flag_id = [],
         flag_sessionId = (if truthy (req_sessionId req) then the (req_sessionId req)
                           else ''unknown''),
         timestamp = now, flag_type = SessionFlag,
         flag_severity = (if score analysis > 70 then High
                          else if score analysis > 50 then Medium else Low),
         description = ''Real-time anomaly: '' @ toFixed1 (score analysis) @ '' - ''
                         @ join_comma (factors analysis),
         action = (if recommendation analysis = Lock then ''Session locked''
                   else if recommendation analysis = Reauthenticate
                   then ''Request re-authentication'' else ''Monitor''),
         resolved = False \<rparr>"
    by (cases "recommendation analysis") (simp_all add: raised_flag_def)
  have pa: "post_analyze now us req =
      (Success analysis
         (case fst (updateBehaviorProfile now us2 (the (req_userId req)) m 0.1) of
            Some profile \<Rightarrow> profile | None \<Rightarrow> behaviorProfile user),
       snd (updateBehaviorProfile now us2 (the (req_userId req)) m 0.1))"
    unfolding us2_def us1_def flag using t m u
    by (simp add: post_analyze_def getAllUsers_def Let_def split_def analysis_def id)
  have users1: "users us1 = users us"
    by (simp add: us1_def users_updateSessionActivity)
  have users2: "users us2 = users us"
    by (simp add: us2_def users_addFlagLog users1)
  have flags1: "flagLogs us1 = flagLogs us"
    by (simp add: us1_def flagLogs_updateSessionActivity)
  have flags2: "flagLogs us2 = (if score analysis > 30
       then flagLogs us @ [raised_flag now req analysis] else flagLogs us)"
    by (simp add: us2_def flagLogs_addFlagLog flags1) (simp add: raised_flag_def)
  have u2: "find (\<lambda>u. user_id u = the (req_userId req)) (map snd (users us2)) = Some user"
    using u by (simp add: users2)
  show "fst (post_analyze now us req)
           = Success (analyzeBehavior m (behaviorProfile user))
               (updateProfile now (behaviorProfile user) m 0.1)"
    by (simp add: pa updateBehaviorProfile_found(1) [OF u2] analysis_def)
  show "flagLogs (snd (post_analyze now us req))
           = (if score (analyzeBehavior m (behaviorProfile user)) > 30
              then flagLogs us @ [raised_flag now req (analyzeBehavior m (behaviorProfile user))]
              else flagLogs us)"
    by (simp add: pa updateBehaviorProfile_found(2) [OF u2] flags2 analysis_def)
  show "users (snd (post_analyze now us req))
           = set_first_profile (the (req_userId req))
               (updateProfile now (behaviorProfile user) m 0.1) (users us)"
    by (simp add: pa updateBehaviorProfile_found(4) [OF u2] users2)
qed


lemma sample45_analysis:
  "analyzeBehavior sample45 john_profile =
     \<lparr> score = 45, confidence = 0.8,
       factors = [''Typing speed deviation: 100.0%'', ''Scroll pattern deviation: 25.0%''],
       recommendation = Reauthenticate \<rparr>"
  by (simp add: analyzeBehavior_def sample45_def john_profile_def analyzeTypingBehavior_def
      analyzeMouseBehavior_def analyzeScrollBehavior_def analyzeSessionBehavior_def Let_def
      toFixed1_def showNat.simps)

lemma request45_run:
  "post_analyze 5000 john_service request45 =
     (Success (analyzeBehavior sample45 john_profile)
        (updateProfile 5000 john_profile sample45 0.1),
      \<lparr> users = [(''john_doe'',
                  john\<lparr> behaviorProfile := updateProfile 5000 john_profile sample45 0.1 \<rparr>)],
        sessions = [''session-1'' \<mapsto> demo_session\<lparr> lastActivity := 5000, anomalyScore := 45 \<rparr>],
        flagLogs = [\<lparr> flag_id = ''5000'', flag_sessionId = ''session-1'', timestamp = 5000,
                      flag_type = SessionFlag, flag_severity = Low,
                      description = ''Real-time anomaly: 45.0 - Typing speed deviation: 100.0%, Scroll pattern deviation: 25.0%'',
                      action = ''Request re-authentication'', resolved = False \<rparr>] \<rparr>)"
  by (simp add: post_analyze_def request45_def john_service_def truthy_def getAllUsers_def
      john_def sample45_analysis updateSessionActivity_def addFlagLog_def
      updateBehaviorProfile_def Let_def toFixed1_def showNat.simps)

text \<open>
  Claim C8. A request that is rejected (status 400 or 404) changes nothing. A request that
  is analysed appends exactly one flag-log entry when the score of the analysis exceeds 30
  and none otherwise; the entry is unresolved, its severity is high above 70, medium above
  50 and low otherwise, and its action is "Session locked" for \<open>Lock\<close>,
  "Request re-authentication" for \<open>Reauthenticate\<close> and "Monitor" for \<open>Pass\<close>.
\<close>

theorem analyze_raises_flag:
  assumes "post_analyze now us req = (resp, us')"
  shows "(resp = Status400 \<or> resp = Status404 \<longrightarrow> us' = us)
    \<and> (resp = Success analysis prof \<longrightarrow>
         (\<not> score analysis > 30 \<longrightarrow> flagLogs us' = flagLogs us)
       \<and> (score analysis > 30 \<longrightarrow>
            (\<exists>f. flagLogs us' = flagLogs us @ [f]
               \<and> resolved f = False
               \<and> flag_severity f = (if score analysis > 70 then High
                                    else if score analysis > 50 then Medium else Low)
               \<and> action f = (case recommendation analysis of
                               Lock \<Rightarrow> ''Session locked''
                             | Reauthenticate \<Rightarrow> ''Request re-authentication''
                             | Pass \<Rightarrow> ''Monitor''))))"
proof (cases "truthy (req_userId req) \<and> req_behaviorMetrics req \<noteq> None")
  case False
  then show ?thesis using assms post_analyze_400 [of req now us] by auto
next
  case True
  then obtain m where t: "truthy (req_userId req)" and m: "req_behaviorMetrics req = Some m"
    by auto
  show ?thesis
  proof (cases "find (\<lambda>u. user_id u = the (req_userId req)) (map snd (users us))")
    case None
    then show ?thesis using assms post_analyze_404 [OF t m None, of now] by simp
  next
    case (Some user)
    have r: "resp = Success (analyzeBehavior m (behaviorProfile user))
               (updateProfile now (behaviorProfile user) m 0.1)"
      using post_analyze_found(1) [OF t m Some, of now] assms by simp
    have f: "flagLogs us' = (if score (analyzeBehavior m (behaviorProfile user)) > 30
              then flagLogs us @ [raised_flag now req (analyzeBehavior m (behaviorProfile user))]
              else flagLogs us)"
      using post_analyze_found(2) [OF t m Some, of now] assms by simp
    show ?thesis
      unfolding r using f by (auto simp: raised_flag_def)
  qed
qed

theorem analyze_raises_flag_witness:
  "score (analyzeBehavior sample45 john_profile) = 45
   \<and> recommendation (analyzeBehavior sample45 john_profile) = Reauthenticate
   \<and> (\<exists>f. flagLogs (snd (post_analyze 5000 john_service request45))
              = flagLogs john_service @ [f]
          \<and> resolved f = False \<and> flag_severity f = Low
          \<and> action f = ''Request re-authentication'')"
  using analyze_raises_flag [OF request45_run]
  by (simp add: sample45_analysis request45_run)

subsection \<open>The two scorers, field by field\<close>

text \<open>The nested assignments of the two \<open>analyzeBehavior\<close> functions, read off as one
  expression per field of the result.\<close>

lemma scalar_scores_le:
  "analyzeTypingBehavior c b \<le> 100" "analyzeMouseBehavior c b \<le> 100"
  "analyzeScrollBehavior c b \<le> 100"
  by (simp_all add: analyzeTypingBehavior_def analyzeMouseBehavior_def analyzeScrollBehavior_def)


lemma if_append_distrib: "(if c then xs @ [a] else xs) = xs @ (if c then [a] else [])"
  by simp


lemma analyzeBehavior_recommendation:
  "recommendation (analyzeBehavior m p) =
     (if score (analyzeBehavior m p) < 30 then Pass
      else if score (analyzeBehavior m p) < 70 then Reauthenticate else Lock)"
  by (simp only: analyzeBehavior_def Let_def AnomalyAnalysis.select_convs)

lemma analyzeBehavior_factors:
  "factors (analyzeBehavior m p) =
     (if analyzeTypingBehavior (avgTypingInterval m) (baselineTypingInterval p) > 0
      then [''Typing speed deviation: ''
            @ toFixed1 (analyzeTypingBehavior (avgTypingInterval m) (baselineTypingInterval p))
            @ ''%''] else [])
   @ (if analyzeMouseBehavior (mouseMovementCount m) (baselineMouseActivity p) > 0
      then [''Mouse activity deviation: ''
            @ toFixed1 (analyzeMouseBehavior (mouseMovementCount m) (baselineMouseActivity p))
            @ ''%''] else [])
   @ (if analyzeScrollBehavior (scrollEventCount m) (baselineScrollPattern p) > 0
      then [''Scroll pattern deviation: ''
            @ toFixed1 (analyzeScrollBehavior (scrollEventCount m) (baselineScrollPattern p))
            @ ''%''] else [])
   @ (if analyzeSessionBehavior (sessionDuration m) > 0
      then [''Session duration anomaly: ''
            @ toFixed1 (analyzeSessionBehavior (sessionDuration m)) @ ''%''] else [])"
  by (simp only: analyzeBehavior_def Let_def AnomalyAnalysis.select_convs if_append_distrib
      append_Nil append_assoc)

lemma ml_analyzeBehavior_score:
  "score (fst (ml_analyzeBehavior now ups uid m)) =
     min 100 (max 0
       (calculateTypingAnomaly (avgTypingInterval m) (ml_profile_after now ups uid m) * 0.4
        + calculateMouseAnomaly (mouseMovementCount m) (ml_profile_after now ups uid m) * 0.3
        + calculateScrollAnomaly (scrollEventCount m) (ml_profile_after now ups uid m) * 0.3))"
  by (simp only: ml_analyzeBehavior_def Let_def split_def fst_conv
      AnomalyAnalysis.select_convs ml_profile_after_def)

lemma ml_analyzeBehavior_recommendation:
  "recommendation (fst (ml_analyzeBehavior now ups uid m)) =
     (let overallScore =
        calculateTypingAnomaly (avgTypingInterval m) (ml_profile_after now ups uid m) * 0.4
        + calculateMouseAnomaly (mouseMovementCount m) (ml_profile_after now ups uid m) * 0.3
        + calculateScrollAnomaly (scrollEventCount m) (ml_profile_after now ups uid m) * 0.3
      in if overallScore < 30 then Pass
         else if overallScore < 70 then Reauthenticate else Lock)"
  by (simp only: ml_analyzeBehavior_def Let_def split_def fst_conv
      AnomalyAnalysis.select_convs ml_profile_after_def)

lemma ml_analyzeBehavior_confidence:
  "confidence (fst (ml_analyzeBehavior now ups uid m)) =
     calculateConfidence (ml_profile_after now ups uid m)"
  by (simp only: ml_analyzeBehavior_def Let_def split_def fst_conv
      AnomalyAnalysis.select_convs ml_profile_after_def)

lemma ml_analyzeBehavior_factors:
  "factors (fst (ml_analyzeBehavior now ups uid m)) =
     (if calculateTypingAnomaly (avgTypingInterval m) (ml_profile_after now ups uid m) > 30
      then [''Typing anomaly: ''
            @ toFixed1 (calculateTypingAnomaly (avgTypingInterval m)
                          (ml_profile_after now ups uid m)) @ ''%''] else [])
   @ (if calculateMouseAnomaly (mouseMovementCount m) (ml_profile_after now ups uid m) > 30
      then [''Mouse activity anomaly: ''
            @ toFixed1 (calculateMouseAnomaly (mouseMovementCount m)
                          (ml_profile_after now ups uid m)) @ ''%''] else [])
   @ (if calculateScrollAnomaly (scrollEventCount m) (ml_profile_after now ups uid m) > 30
      then [''Scroll pattern anomaly: ''
            @ toFixed1 (calculateScrollAnomaly (scrollEventCount m)
                          (ml_profile_after now ups uid m)) @ ''%''] else [])"
  by (simp only: ml_analyzeBehavior_def Let_def split_def fst_conv
      AnomalyAnalysis.select_convs ml_profile_after_def if_append_distrib
      append_Nil append_assoc)

lemma ml_analyzeBehavior_state:
  "snd (ml_analyzeBehavior now ups uid m) =
     (snd (getOrCreateProfile now ups uid))(uid \<mapsto> ml_profile_after now ups uid m)"
  by (simp only: ml_analyzeBehavior_def Let_def split_def snd_conv ml_profile_after_def)

lemma foldl_sq_nonneg: "0 \<le> acc \<Longrightarrow> 0 \<le> foldl (\<lambda>sum val. sum + (val - mu) ^ 2) acc (xs::real list)"
  by (induction xs arbitrary: acc) simp_all

lemma history_std_nonneg: "0 \<le> history_std xs"
  by (simp add: history_std_def Let_def foldl_sq_nonneg)

lemma ml_scores_range:
  "0 \<le> calculateTypingAnomaly c pr \<and> calculateTypingAnomaly c pr \<le> 100"
  "0 \<le> calculateMouseAnomaly c pr \<and> calculateMouseAnomaly c pr \<le> 100"
  "0 \<le> calculateScrollAnomaly c pr \<and> calculateScrollAnomaly c pr \<le> 100"
  using history_std_nonneg
  by (simp_all add: calculateTypingAnomaly_def calculateMouseAnomaly_def
      calculateScrollAnomaly_def Let_def)


lemma ml_overall_range:
  "0 \<le> calculateTypingAnomaly a pr * 0.4 + calculateMouseAnomaly b pr * 0.3
          + calculateScrollAnomaly c pr * 0.3"
  "calculateTypingAnomaly a pr * 0.4 + calculateMouseAnomaly b pr * 0.3
          + calculateScrollAnomaly c pr * 0.3 \<le> 100"
  using ml_scores_range(1) [of a pr] ml_scores_range(2) [of b pr] ml_scores_range(3) [of c pr]
  by simp_all

lemma ml_score_is_overall:
  "score (fst (ml_analyzeBehavior now ups uid m)) =
     calculateTypingAnomaly (avgTypingInterval m) (ml_profile_after now ups uid m) * 0.4
     + calculateMouseAnomaly (mouseMovementCount m) (ml_profile_after now ups uid m) * 0.3
     + calculateScrollAnomaly (scrollEventCount m) (ml_profile_after now ups uid m) * 0.3"
  using ml_overall_range [of "avgTypingInterval m" "ml_profile_after now ups uid m"
      "mouseMovementCount m" "scrollEventCount m"]
  by (simp add: ml_analyzeBehavior_score)

lemma ml_recommendation_of_score:
  "recommendation (fst (ml_analyzeBehavior now ups uid m)) =
     (if score (fst (ml_analyzeBehavior now ups uid m)) < 30 then Pass
      else if score (fst (ml_analyzeBehavior now ups uid m)) < 70 then Reauthenticate
      else Lock)"
  by (simp only: ml_analyzeBehavior_recommendation ml_score_is_overall Let_def)

subsection \<open>Sample runs\<close>

lemma scalar_runs:
  "analyzeBehavior (sample_of 17475 100 100) (profile_of 10000 100 100)
     = \<lparr> score = 29.9, confidence = 0.8, factors = [''Typing speed deviation: 74.8%''],
         recommendation = Pass \<rparr>"
  "analyzeBehavior (sample_of 17500 100 100) (profile_of 10000 100 100)
     = \<lparr> score = 30, confidence = 0.8, factors = [''Typing speed deviation: 75.0%''],
         recommendation = Reauthenticate \<rparr>"
  "analyzeBehavior (sample_of 20000 199 101) (profile_of 10000 100 100)
     = \<lparr> score = 69.9, confidence = 0.8,
         factors = [''Typing speed deviation: 100.0%'', ''Mouse activity deviation: 99.0%'',
                    ''Scroll pattern deviation: 1.0%''],
         recommendation = Reauthenticate \<rparr>"
  "analyzeBehavior (sample_of 20000 200 100) (profile_of 10000 100 100)
     = \<lparr> score = 70, confidence = 0.8,
         factors = [''Typing speed deviation: 100.0%'', ''Mouse activity deviation: 100.0%''],
         recommendation = Lock \<rparr>"
  by (simp_all add: analyzeBehavior_def sample_of_def profile_of_def analyzeTypingBehavior_def
      analyzeMouseBehavior_def analyzeScrollBehavior_def analyzeSessionBehavior_def Let_def
      toFixed1_def showNat.simps)

lemma history4_after:
  "ml_profile_after 5000 [''u'' \<mapsto> history_profile 4] ''u'' (sample_of 20 20 20) =
     \<lparr> ml_userId = ''u'', typingIntervals = [10, 10, 10, 10, 20],
       mouseMovements = [10, 10, 10, 10, 20], scrollEvents = [10, 10, 10, 10, 20],
       ml_baselineTypingInterval = 11, ml_baselineMouseActivity = 11,
       ml_baselineScrollPattern = 11, ml_lastUpdated = 5000 \<rparr>"
  by (simp add: ml_profile_after_def getOrCreateProfile_def history_profile_def sample_of_def
      ml_updateProfile_def ml_updateBaseline_def slice_last_def Let_def eval_nat_numeral)

lemma history5_stats:
  "history_mean [10, 10, 10, 10, 20] = 12" "history_std [10, 10, 10, 10, 20] = 4"
  by (simp_all add: history_mean_def history_std_def Let_def)

lemma history4_run:
  "fst (ml_analyzeBehavior 5000 [''u'' \<mapsto> history_profile 4] ''u'' (sample_of 20 20 20)) =
     \<lparr> score = 40, confidence = 0.6,
       factors = [''Typing anomaly: 40.0%'', ''Mouse activity anomaly: 40.0%'',
                  ''Scroll pattern anomaly: 40.0%''],
       recommendation = Reauthenticate \<rparr>"
proof -
  have s: "calculateTypingAnomaly 20 (ml_profile_after 5000 [''u'' \<mapsto> history_profile 4] ''u'' (sample_of 20 20 20)) = 40"
    "calculateMouseAnomaly 20 (ml_profile_after 5000 [''u'' \<mapsto> history_profile 4] ''u'' (sample_of 20 20 20)) = 40"
    "calculateScrollAnomaly 20 (ml_profile_after 5000 [''u'' \<mapsto> history_profile 4] ''u'' (sample_of 20 20 20)) = 40"
    by (simp_all add: history4_after calculateTypingAnomaly_def calculateMouseAnomaly_def
        calculateScrollAnomaly_def history5_stats Let_def)
  have c: "calculateConfidence (ml_profile_after 5000 [''u'' \<mapsto> history_profile 4] ''u'' (sample_of 20 20 20)) = 0.6"
    by (simp add: history4_after calculateConfidence_def Let_def)
  have m: "avgTypingInterval (sample_of 20 20 20) = 20" "mouseMovementCount (sample_of 20 20 20) = 20"
    "scrollEventCount (sample_of 20 20 20) = 20"
    by (simp_all add: sample_of_def)
  have t: "toFixed1 40 = ''40.0''" by (simp add: toFixed1_def showNat.simps)
  show ?thesis
    by (rule AnomalyAnalysis.equality)
       (simp_all add: ml_analyzeBehavior_score ml_analyzeBehavior_recommendation
         ml_analyzeBehavior_confidence ml_analyzeBehavior_factors m s c t Let_def)
qed


lemma sample10_analysis:
  "analyzeBehavior (sample_of 264 45 8) john_profile =
     \<lparr> score = 4, confidence = 0.8, factors = [''Typing speed deviation: 10.0%''],
       recommendation = Pass \<rparr>"
  by (simp add: analyzeBehavior_def sample_of_def john_profile_def analyzeTypingBehavior_def
      analyzeMouseBehavior_def analyzeScrollBehavior_def analyzeSessionBehavior_def Let_def
      toFixed1_def showNat.simps)

subsection \<open>Recommendation thresholds\<close>

text \<open>
  Claim C3. In both scorer variants the recommendation of the returned analysis is
  determined by its score: pass below 30, reauthenticate from 30 up to but not including
  70, lock from 70 on. In particular 29.9 gives pass, 30.0 and 69.9 give reauthenticate
  and 70.0 gives lock.
\<close>

theorem recommendation_thresholds:
  "\<forall>r \<in> {analyzeBehavior m p, fst (ml_analyzeBehavior now ups uid m')}.
     (score r < 30 \<longrightarrow> recommendation r = Pass)
   \<and> (30 \<le> score r \<and> score r < 70 \<longrightarrow> recommendation r = Reauthenticate)
   \<and> (70 \<le> score r \<longrightarrow> recommendation r = Lock)
   \<and> (score r = 29.9 \<longrightarrow> recommendation r = Pass)
   \<and> (score r = 30.0 \<longrightarrow> recommendation r = Reauthenticate)
   \<and> (score r = 69.9 \<longrightarrow> recommendation r = Reauthenticate)
   \<and> (score r = 70.0 \<longrightarrow> recommendation r = Lock)"
  by (simp add: analyzeBehavior_recommendation ml_recommendation_of_score)

theorem recommendation_thresholds_witness:
  "score (analyzeBehavior (sample_of 17475 100 100) (profile_of 10000 100 100)) = 29.9
   \<and> recommendation (analyzeBehavior (sample_of 17475 100 100) (profile_of 10000 100 100)) = Pass
   \<and> score (analyzeBehavior (sample_of 17500 100 100) (profile_of 10000 100 100)) = 30.0
   \<and> recommendation (analyzeBehavior (sample_of 17500 100 100) (profile_of 10000 100 100))
        = Reauthenticate
   \<and> score (analyzeBehavior (sample_of 20000 199 101) (profile_of 10000 100 100)) = 69.9
   \<and> recommendation (analyzeBehavior (sample_of 20000 199 101) (profile_of 10000 100 100))
        = Reauthenticate
   \<and> score (analyzeBehavior (sample_of 20000 200 100) (profile_of 10000 100 100)) = 70.0
   \<and> recommendation (analyzeBehavior (sample_of 20000 200 100) (profile_of 10000 100 100)) = Lock
   \<and> score (fst (ml_analyzeBehavior 5000 [''u'' \<mapsto> history_profile 4] ''u'' (sample_of 20 20 20)))
        = 40
   \<and> recommendation
        (fst (ml_analyzeBehavior 5000 [''u'' \<mapsto> history_profile 4] ''u'' (sample_of 20 20 20)))
        = Reauthenticate"
  using
    recommendation_thresholds [of "sample_of 17475 100 100" "profile_of 10000 100 100"
      5000 "[''u'' \<mapsto> history_profile 4]" "''u''" "sample_of 20 20 20"]
    recommendation_thresholds [of "sample_of 17500 100 100" "profile_of 10000 100 100"
      5000 "[''u'' \<mapsto> history_profile 4]" "''u''" "sample_of 20 20 20"]
    recommendation_thresholds [of "sample_of 20000 199 101" "profile_of 10000 100 100"
      5000 "[''u'' \<mapsto> history_profile 4]" "''u''" "sample_of 20 20 20"]
    recommendation_thresholds [of "sample_of 20000 200 100" "profile_of 10000 100 100"
      5000 "[''u'' \<mapsto> history_profile 4]" "''u''" "sample_of 20 20 20"]
  by (simp add: scalar_runs history4_run)

subsection \<open>Range of the overall score\<close>






subsection \<open>Factors\<close>

text \<open>
  Claim C4, as amended. The factors of the scalar scorer hold an entry for typing, pointer
  and scroll exactly when the signal's deviation score exceeds 0, and an entry for the
  session exactly when the session is shorter than 5000 ms; the factors of the z-score
  scorer hold an entry for typing, pointer and scroll exactly when the signal's score
  exceeds 30. The entries are in the order typing, pointer, scroll, session.
\<close>

theorem factors_by_variant:
  "factors (analyzeBehavior m p) =
     (if analyzeTypingBehavior (avgTypingInterval m) (baselineTypingInterval p) > 0
      then [''Typing speed deviation: ''
            @ toFixed1 (analyzeTypingBehavior (avgTypingInterval m) (baselineTypingInterval p))
            @ ''%''] else [])
   @ (if analyzeMouseBehavior (mouseMovementCount m) (baselineMouseActivity p) > 0
      then [''Mouse activity deviation: ''
            @ toFixed1 (analyzeMouseBehavior (mouseMovementCount m) (baselineMouseActivity p))
            @ ''%''] else [])
   @ (if analyzeScrollBehavior (scrollEventCount m) (baselineScrollPattern p) > 0
      then [''Scroll pattern deviation: ''
            @ toFixed1 (analyzeScrollBehavior (scrollEventCount m) (baselineScrollPattern p))
            @ ''%''] else [])
   @ (if sessionDuration m < 5000 then [''Session duration anomaly: 30.0%''] else [])
   \<and> factors (fst (ml_analyzeBehavior now ups uid m')) =
     (if calculateTypingAnomaly (avgTypingInterval m') (ml_profile_after now ups uid m') > 30
      then [''Typing anomaly: ''
            @ toFixed1 (calculateTypingAnomaly (avgTypingInterval m')
                          (ml_profile_after now ups uid m')) @ ''%''] else [])
   @ (if calculateMouseAnomaly (mouseMovementCount m') (ml_profile_after now ups uid m') > 30
      then [''Mouse activity anomaly: ''
            @ toFixed1 (calculateMouseAnomaly (mouseMovementCount m')
                          (ml_profile_after now ups uid m')) @ ''%''] else [])
   @ (if calculateScrollAnomaly (scrollEventCount m') (ml_profile_after now ups uid m') > 30
      then [''Scroll pattern anomaly: ''
            @ toFixed1 (calculateScrollAnomaly (scrollEventCount m')
                          (ml_profile_after now ups uid m')) @ ''%''] else [])"
proof -
  have t30: "toFixed1 30 = ''30.0''" by (simp add: toFixed1_def showNat.simps)
  have s: "(if analyzeSessionBehavior (sessionDuration m) > 0
      then [''Session duration anomaly: ''
            @ toFixed1 (analyzeSessionBehavior (sessionDuration m)) @ ''%''] else [])
     = (if sessionDuration m < 5000 then [''Session duration anomaly: 30.0%''] else [])"
    by (simp add: analyzeSessionBehavior_def t30)
  show ?thesis
    by (simp only: analyzeBehavior_factors ml_analyzeBehavior_factors s simp_thms)
qed

theorem factors_by_variant_witness:
  "factors (analyzeBehavior (sample_of 264 45 8) john_profile)
     = [''Typing speed deviation: 10.0%'']
   \<and> factors (fst (ml_analyzeBehavior 5000 [''u'' \<mapsto> history_profile 4] ''u''
                     (sample_of 20 20 20)))
     = [''Typing anomaly: 40.0%'', ''Mouse activity anomaly: 40.0%'',
        ''Scroll pattern anomaly: 40.0%'']"
  using factors_by_variant [of "sample_of 264 45 8" john_profile
      5000 "[''u'' \<mapsto> history_profile 4]" "''u''" "sample_of 20 20 20"]
  by (simp add: sample10_analysis history4_run)

text \<open>A typing deviation of 10, which does not exceed 30, has its entry in the factors of
  the scalar scorer.\<close>

theorem scalar_factor_below_30:
  "analyzeTypingBehavior (avgTypingInterval (sample_of 264 45 8))
     (baselineTypingInterval john_profile) = 10
   \<and> \<not> (10::real) > 30
   \<and> factors (analyzeBehavior (sample_of 264 45 8) john_profile)
        = [''Typing speed deviation: 10.0%'']"
  by (simp add: sample10_analysis) (simp add: sample_of_def john_profile_def analyzeTypingBehavior_def)

subsection \<open>The z-score scorer reads the updated profile\<close>

lemma slice_last_length: "length (slice_last k xs) = min k (length xs)"
  by (simp add: slice_last_def)

lemma ml_updateProfile_histories:
  "typingIntervals (ml_updateProfile now pr m)
     = slice_last 100 (typingIntervals pr @ [avgTypingInterval m])"
  "mouseMovements (ml_updateProfile now pr m)
     = slice_last 100 (mouseMovements pr @ [mouseMovementCount m])"
  "scrollEvents (ml_updateProfile now pr m)
     = slice_last 100 (scrollEvents pr @ [scrollEventCount m])"
  by (simp_all add: ml_updateProfile_def Let_def)

lemma ml_profile_after_known:
  "ups uid = Some pr \<Longrightarrow> ml_profile_after now ups uid m = ml_updateProfile now pr m"
  by (simp add: ml_profile_after_def getOrCreateProfile_def)

text \<open>The confidence of a call counts the call's own sample.\<close>

lemma ml_confidence_after_call:
  assumes "ups uid = Some pr"
    and "length (typingIntervals pr) = k" "length (mouseMovements pr) = k"
    "length (scrollEvents pr) = k"
  shows "confidence (fst (ml_analyzeBehavior now ups uid m)) =
     (if min 100 (k + 1) < 5 then 0.3 else if min 100 (k + 1) < 20 then 0.6
      else if min 100 (k + 1) < 50 then 0.8 else 0.95)"
proof -
  have "calculateConfidence (ml_updateProfile now pr m) =
     (if min 100 (k + 1) < 5 then 0.3 else if min 100 (k + 1) < 20 then 0.6
      else if min 100 (k + 1) < 50 then 0.8 else 0.95)"
    using assms(2-4)
    by (simp only: calculateConfidence_def ml_updateProfile_histories slice_last_length
        Let_def length_append list.size) auto
  then show ?thesis
    using ml_profile_after_known [of ups uid pr now m] assms(1)
    by (simp only: ml_analyzeBehavior_confidence)
qed

lemma history_profile_confidence:
  "calculateConfidence (history_profile k) =
     (if k < 5 then 0.3 else if k < 20 then 0.6 else if k < 50 then 0.8 else 0.95)"
  by (simp add: calculateConfidence_def history_profile_def Let_def)

text \<open>
  Claim C7, evaluated. \<open>calculateConfidence\<close> maps 4, 19, 49 and 50 paired samples to 0.3,
  0.6, 0.8 and 0.95, but \<open>ml_analyzeBehavior\<close> applies it after the call's own sample
  has been appended: a call made on histories of 4, 19, 49 and 50 samples returns the
  confidence 0.6, 0.8, 0.95 and 0.95.
\<close>

theorem confidence_counts_new_sample:
  "calculateConfidence (history_profile 4) = 0.3
   \<and> confidence (fst (ml_analyzeBehavior 5000 [''u'' \<mapsto> history_profile 4] ''u''
                        (sample_of 20 20 20))) = 0.6
   \<and> calculateConfidence (history_profile 19) = 0.6
   \<and> confidence (fst (ml_analyzeBehavior 5000 [''u'' \<mapsto> history_profile 19] ''u''
                        (sample_of 20 20 20))) = 0.8
   \<and> calculateConfidence (history_profile 49) = 0.8
   \<and> confidence (fst (ml_analyzeBehavior 5000 [''u'' \<mapsto> history_profile 49] ''u''
                        (sample_of 20 20 20))) = 0.95
   \<and> calculateConfidence (history_profile 50) = 0.95
   \<and> confidence (fst (ml_analyzeBehavior 5000 [''u'' \<mapsto> history_profile 50] ''u''
                        (sample_of 20 20 20))) = 0.95"
proof -
  have len: "length (typingIntervals (history_profile k)) = k"
    "length (mouseMovements (history_profile k)) = k"
    "length (scrollEvents (history_profile k)) = k" for k
    by (simp_all add: history_profile_def)
  have c: "confidence (fst (ml_analyzeBehavior 5000 [''u'' \<mapsto> history_profile k] ''u''
                        (sample_of 20 20 20))) =
     (if min 100 (k + 1) < 5 then 0.3 else if min 100 (k + 1) < 20 then 0.6
      else if min 100 (k + 1) < 50 then 0.8 else 0.95)" for k
    by (rule ml_confidence_after_call [OF _ len]) simp
  show ?thesis by (simp add: c history_profile_confidence)
qed

text \<open>
  Claim C1, evaluated. On histories of four samples of value 10, scoring the sample 20
  against the stored profile gives 0 for every signal (fewer than five samples). The call
  of \<open>ml_analyzeBehavior\<close> appends the sample first and scores it against the history
  \<open>[10, 10, 10, 10, 20]\<close>, which already holds it: every signal scores 40, the overall
  score is 40 and the recommendation is reauthenticate.
\<close>

theorem ml_scores_after_update:
  "calculateTypingAnomaly 20 (history_profile 4) = 0
   \<and> calculateMouseAnomaly 20 (history_profile 4) = 0
   \<and> calculateScrollAnomaly 20 (history_profile 4) = 0
   \<and> fst (ml_analyzeBehavior 5000 [''u'' \<mapsto> history_profile 4] ''u'' (sample_of 20 20 20)) =
       \<lparr> score = 40, confidence = 0.6,
         factors = [''Typing anomaly: 40.0%'', ''Mouse activity anomaly: 40.0%'',
                    ''Scroll pattern anomaly: 40.0%''],
         recommendation = Reauthenticate \<rparr>
   \<and> calculateTypingAnomaly 20
        (ml_profile_after 5000 [''u'' \<mapsto> history_profile 4] ''u'' (sample_of 20 20 20)) = 40
   \<and> typingIntervals
        (ml_profile_after 5000 [''u'' \<mapsto> history_profile 4] ''u'' (sample_of 20 20 20))
       = [10, 10, 10, 10, 20]"
proof -
  have before: "calculateTypingAnomaly 20 (history_profile 4) = 0"
    "calculateMouseAnomaly 20 (history_profile 4) = 0"
    "calculateScrollAnomaly 20 (history_profile 4) = 0"
    by (simp_all add: calculateTypingAnomaly_def calculateMouseAnomaly_def
        calculateScrollAnomaly_def history_profile_def)
  have after: "calculateTypingAnomaly 20
        (ml_profile_after 5000 [''u'' \<mapsto> history_profile 4] ''u'' (sample_of 20 20 20)) = 40"
    by (simp add: history4_after calculateTypingAnomaly_def history5_stats Let_def)
  show ?thesis
    by (simp add: before after history4_run) (simp add: history4_after)
qed


end
